theory Spec2Isabelle
  imports Main "HOL-Library.Sublist"
begin

section \<open>Values, errors and string formatting\<close>

text \<open>
  The program \<^verbatim>\<open>eol_check.py\<close> reads a YAML catalog of product entries, resolves an
  end-of-life date for each entry and either writes a calendar or opens tracker issues.
  Strings are byte strings (UTF-8); a date is a calendar triple.
\<close>

datatype date = Date (year: nat) (month: nat) (day: nat)

text \<open>
  A field of a catalog entry is whatever \<^verbatim>\<open>yaml.safe_load\<close> produced. The scalars are
  modelled: null, booleans, integers, strings and (unquoted) dates. Floats and nested
  collections as field values are outside the model.
\<close>

datatype pyval = PNone | PBool bool | PInt int | PStr string | PDate date

text \<open>A decoded JSON document (numbers restricted to integers).\<close>

datatype json = JNull | JBool bool | JNum int | JStr string
  | JArr "json list" | JObj "(string \<times> json) list"

text \<open>
  Every exception the program can raise is a value. \<open>ValueError\<close> carries the message the
  program itself builds; the library-raised value errors have constructors of their own.
\<close>

datatype error =
    KeyError string
  | TypeError
  | AttributeError
  | ValueError string
  | IsoformatError string
  | IntLiteralError string
  | FormatError
  | HTTPError nat
  | RequestException
  | JSONDecodeError
  | CalledProcessError
  | OSError
  | SystemExit int

type_synonym entry = "(string \<times> pyval) list"

text \<open>\<^verbatim>\<open>entry[k]\<close> raises \<open>KeyError\<close>; \<^verbatim>\<open>entry.get(k, d)\<close> does not.\<close>

definition getitem :: "entry \<Rightarrow> string \<Rightarrow> error + pyval" where
  "getitem e k = (case map_of e k of None \<Rightarrow> Inl (KeyError k) | Some v \<Rightarrow> Inr v)"

definition get_or :: "entry \<Rightarrow> string \<Rightarrow> pyval \<Rightarrow> pyval" where
  "get_or e k d = (case map_of e k of None \<Rightarrow> d | Some v \<Rightarrow> v)"

text \<open>Python truthiness, as used by \<^verbatim>\<open>not x\<close>.\<close>

fun truthy :: "pyval \<Rightarrow> bool" where
  "truthy PNone = False"
| "truthy (PBool b) = b"
| "truthy (PInt n) = (n \<noteq> 0)"
| "truthy (PStr s) = (s \<noteq> [])"
| "truthy (PDate d) = True"

fun json_truthy :: "json \<Rightarrow> bool" where
  "json_truthy JNull = False"
| "json_truthy (JBool b) = b"
| "json_truthy (JNum n) = (n \<noteq> 0)"
| "json_truthy (JStr s) = (s \<noteq> [])"
| "json_truthy (JArr xs) = (xs \<noteq> [])"
| "json_truthy (JObj kvs) = (kvs \<noteq> [])"

subsection \<open>Decimal rendering\<close>

definition digit_char :: "nat \<Rightarrow> char" where
  "digit_char n = char_of (48 + n)"

function str_nat :: "nat \<Rightarrow> string" where
  "str_nat n = (if n < 10 then [digit_char n] else str_nat (n div 10) @ [digit_char (n mod 10)])"
  by pat_completeness auto
termination
  by (relation "measure id") auto

declare str_nat.simps [simp del]

definition str_int :: "int \<Rightarrow> string" where
  "str_int i = (if i < 0 then CHR ''-'' # str_nat (nat (- i)) else str_nat (nat i))"

text \<open>\<^verbatim>\<open>"%04d"\<close> and \<^verbatim>\<open>"%02d"\<close>: pad with zeros on the left up to the width.\<close>

definition zero_pad :: "nat \<Rightarrow> nat \<Rightarrow> string" where
  "zero_pad w n = replicate (w - length (str_nat n)) (CHR ''0'') @ str_nat n"

definition isoformat :: "date \<Rightarrow> string" where
  "isoformat d = zero_pad 4 (year d) @ ''-'' @ zero_pad 2 (month d) @ ''-'' @ zero_pad 2 (day d)"

text \<open>\<^verbatim>\<open>str(v)\<close>, which is also what a replacement field of \<^verbatim>\<open>str.format\<close> renders.\<close>

fun py_str :: "pyval \<Rightarrow> string" where
  "py_str PNone = ''None''"
| "py_str (PBool b) = (if b then ''True'' else ''False'')"
| "py_str (PInt n) = str_int n"
| "py_str (PStr s) = s"
| "py_str (PDate d) = isoformat d"

subsection \<open>\<^verbatim>\<open>str.format\<close> with named fields\<close>

text \<open>
  The two templates use plain named fields only (no conversions, format specs or doubled
  braces). A field is the text between \<open>{\<close> and the next \<open>}\<close>; a name that is not among
  the keyword arguments raises \<open>KeyError\<close>; an unclosed \<open>{\<close> or a lone \<open>}\<close> is a format
  error.
\<close>

function py_format :: "string \<Rightarrow> (string \<times> string) list \<Rightarrow> error + string" where
  "py_format [] kw = Inr []"
| "py_format (c # cs) kw =
     (if c = CHR ''{'' then
        (if CHR ''}'' \<notin> set cs then Inl FormatError
         else (case map_of kw (takeWhile (\<lambda>x. x \<noteq> CHR ''}'') cs) of
                 None \<Rightarrow> Inl (KeyError (takeWhile (\<lambda>x. x \<noteq> CHR ''}'') cs))
               | Some v \<Rightarrow>
                   (case py_format (drop 1 (dropWhile (\<lambda>x. x \<noteq> CHR ''}'') cs)) kw of
                      Inl err \<Rightarrow> Inl err
                    | Inr r \<Rightarrow> Inr (v @ r))))
      else if c = CHR ''}'' then Inl FormatError
      else (case py_format cs kw of Inl err \<Rightarrow> Inl err | Inr r \<Rightarrow> Inr (c # r)))"
  by pat_completeness auto
termination
proof (relation "measure (\<lambda>(t, kw). length t)")
  show "wf (measure (\<lambda>(t, kw). length t))" by simp
next
  fix c :: char and cs :: string and kw :: "(string \<times> string) list"
  have "length (dropWhile (\<lambda>x. x \<noteq> CHR ''}'') cs) \<le> length cs"
    by (rule length_dropWhile_le)
  then show "((drop 1 (dropWhile (\<lambda>x. x \<noteq> CHR ''}'') cs), kw), (c # cs, kw))
      \<in> measure (\<lambda>(t, kw). length t)"
    by simp
next
  fix c :: char and cs :: string and kw :: "(string \<times> string) list"
  show "((cs, kw), (c # cs, kw)) \<in> measure (\<lambda>(t, kw). length t)" by simp
qed

definition TITLE_TMPL :: string where
  "TITLE_TMPL = ''{product} {version} reaches EOL on {eol_date}''"

text \<open>
  \<^verbatim>\<open>TITLE_TMPL.format(product=.., version=.., eol_date=..)\<close> on the rendered arguments.
\<close>

definition title_of :: "string \<Rightarrow> string \<Rightarrow> string \<Rightarrow> error + string" where
  "title_of product version eol_date =
     py_format TITLE_TMPL
       [(''product'', product), (''version'', version), (''eol_date'', eol_date)]"

definition BODY_TMPL :: string where
  "BODY_TMPL =
     [CHR 0xE2, CHR 0x9A, CHR 0xA0, CHR 0xEF, CHR 0xB8, CHR 0x8F] @ '' **End'' @
     [CHR 0xE2, CHR 0x80, CHR 0x91] @ ''of'' @ [CHR 0xE2, CHR 0x80, CHR 0x91] @
     ''life approaching**'' @ [CHR 10, CHR 10] @
     ''* **Product:** {product} {version}'' @ [CHR 10] @
     ''* **EOL date:** {eol_date}'' @ [CHR 10, CHR 10] @
     ''_Source: {source_ref}_'' @ [CHR 10]"

text \<open>\<^verbatim>\<open>BODY_TMPL.format(product=.., version=.., eol_date=.., source_ref=..)\<close>.\<close>

definition body_of :: "string \<Rightarrow> string \<Rightarrow> string \<Rightarrow> string \<Rightarrow> error + string" where
  "body_of product version eol_date source_ref =
     py_format BODY_TMPL
       [(''product'', product), (''version'', version), (''eol_date'', eol_date),
        (''source_ref'', source_ref)]"

section \<open>Dates and integers\<close>

text \<open>
  The proleptic Gregorian calendar of \<^verbatim>\<open>datetime.date\<close>: \<open>toordinal\<close> counts days from
  0001-01-01 (which is day 1), and the difference of two dates is the difference of
  their ordinals.
\<close>

definition is_leap :: "nat \<Rightarrow> bool" where
  "is_leap y = (y mod 4 = 0 \<and> (y mod 100 \<noteq> 0 \<or> y mod 400 = 0))"

definition days_in_month :: "nat \<Rightarrow> nat \<Rightarrow> nat" where
  "days_in_month y m =
     (if m = 2 then (if is_leap y then 29 else 28)
      else if m = 4 \<or> m = 6 \<or> m = 9 \<or> m = 11 then 30 else 31)"

definition days_before_year :: "nat \<Rightarrow> int" where
  "days_before_year y =
     (let p = int y - 1 in p * 365 + p div 4 - p div 100 + p div 400)"

definition days_before_month :: "nat \<Rightarrow> nat \<Rightarrow> int" where
  "days_before_month y m = (\<Sum>k\<leftarrow>[1..<m]. int (days_in_month y k))"

definition toordinal :: "date \<Rightarrow> int" where
  "toordinal d = days_before_year (year d) + days_before_month (year d) (month d) + int (day d)"

text \<open>\<^verbatim>\<open>(a - b).days\<close>\<close>

definition days_between :: "date \<Rightarrow> date \<Rightarrow> int" where
  "days_between a b = toordinal a - toordinal b"

definition is_digit :: "char \<Rightarrow> bool" where
  "is_digit c = (48 \<le> (of_char c :: nat) \<and> (of_char c :: nat) \<le> 57)"

definition digits_val :: "string \<Rightarrow> nat" where
  "digits_val s = foldl (\<lambda>a c. 10 * a + ((of_char c :: nat) - 48)) 0 s"

text \<open>
  \<^verbatim>\<open>datetime.date.fromisoformat\<close> on the extended calendar format \<open>YYYY-MM-DD\<close>, the
  format every supported interpreter accepts and the one \<open>isoformat\<close> writes. Any other
  string is reported as malformed (interpreters from 3.11 on also read the basic and
  the week formats; no property below depends on which strings parse).
\<close>

definition fromisoformat :: "string \<Rightarrow> error + date" where
  "fromisoformat s =
     (if length s = 10 \<and> s ! 4 = CHR ''-'' \<and> s ! 7 = CHR ''-'' \<and>
         list_all is_digit (take 4 s @ take 2 (drop 5 s) @ drop 8 s)
      then
        (let y = digits_val (take 4 s); m = digits_val (take 2 (drop 5 s));
             d = digits_val (drop 8 s)
         in if 1 \<le> y \<and> 1 \<le> m \<and> m \<le> 12 \<and> 1 \<le> d \<and> d \<le> days_in_month y m
            then Inr (Date y m d) else Inl (IsoformatError s))
      else Inl (IsoformatError s))"

text \<open>\<^verbatim>\<open>_iso(d)\<close> on a string argument.\<close>

definition iso :: "string \<Rightarrow> error + date" where
  "iso d = fromisoformat d"

text \<open>
  \<^verbatim>\<open>int(v)\<close>. A string is stripped of ASCII white space and read as an optionally signed
  run of decimal digits, single underscores allowed between digits.
\<close>

definition is_space :: "char \<Rightarrow> bool" where
  "is_space c =
     (c = CHR '' '' \<or> (9 \<le> (of_char c :: nat) \<and> (of_char c :: nat) \<le> 13) \<or>
      (28 \<le> (of_char c :: nat) \<and> (of_char c :: nat) \<le> 31))"

definition strip :: "string \<Rightarrow> string" where
  "strip s = rev (dropWhile is_space (rev (dropWhile is_space s)))"

fun digit_groups :: "string \<Rightarrow> bool" where
  "digit_groups [] = False"
| "digit_groups [c] = is_digit c"
| "digit_groups (c # d # cs) =
     (is_digit c \<and> (if d = CHR ''_'' then digit_groups cs else digit_groups (d # cs)))"

definition int_of_str :: "string \<Rightarrow> error + int" where
  "int_of_str s =
     (let t = strip s;
          neg = (t \<noteq> [] \<and> hd t = CHR ''-'');
          u = (if t \<noteq> [] \<and> (hd t = CHR ''-'' \<or> hd t = CHR ''+'') then tl t else t)
      in if digit_groups u
         then Inr ((if neg then -1 else 1) * int (digits_val (filter (\<lambda>c. c \<noteq> CHR ''_'') u)))
         else Inl (IntLiteralError s))"

fun py_int :: "pyval \<Rightarrow> error + int" where
  "py_int (PInt n) = Inr n"
| "py_int (PBool b) = Inr (if b then 1 else 0)"
| "py_int (PStr s) = int_of_str s"
| "py_int PNone = Inl TypeError"
| "py_int (PDate d) = Inl TypeError"

section \<open>The outside world\<close>

text \<open>
  Everything the program does to its surroundings is an event appended to a trace, and
  everything it reads from them is answered by the world: the environment variable, the
  clock, the HTTP server, the \<^verbatim>\<open>gh\<close> command line tool and the file system. The answers
  may depend on what has happened so far (the trace).
\<close>

datatype http_response = Response (status_code: nat) (content: "json option")

datatype proc_result = ProcFailed | ProcOutput "json option"

datatype cal_event =
  CalEvent (ev_name: string) (ev_begin: date) (ev_uid: string) (ev_description: string)

datatype event =
    HttpGet string
  | GhIssueList string string
  | GhIssueCreate string string string
  | Stdout string
  | Stderr string
  | StdoutEntry entry
  | WriteText string "cal_event list"

record world =
  GH_TOKEN :: "string option"
  today :: date
  http :: "event list \<Rightarrow> string \<Rightarrow> http_response option"
  gh_list :: "event list \<Rightarrow> string \<Rightarrow> string \<Rightarrow> proc_result"
  gh_create :: "event list \<Rightarrow> string \<Rightarrow> string \<Rightarrow> string \<Rightarrow> bool"
  fs_write :: "event list \<Rightarrow> string \<Rightarrow> bool"
  trace :: "event list"

definition emit :: "event \<Rightarrow> world \<Rightarrow> world" where
  "emit ev w = w\<lparr>trace := trace w @ [ev]\<rparr>"

text \<open>
  \<^verbatim>\<open>requests.get(url, timeout=10)\<close>: one call, answered by a response or by an exception
  (no connection, time-out, bad URL).
\<close>

definition requests_get :: "string \<Rightarrow> world \<Rightarrow> (error + http_response) \<times> world" where
  "requests_get url w =
     (case http w (trace w) url of
        None \<Rightarrow> (Inl RequestException, emit (HttpGet url) w)
      | Some rv \<Rightarrow> (Inr rv, emit (HttpGet url) w))"

text \<open>\<^verbatim>\<open>Response.raise_for_status()\<close> raises for the client and server error codes.\<close>

definition raise_for_status :: "http_response \<Rightarrow> error + unit" where
  "raise_for_status rv =
     (if 400 \<le> status_code rv \<and> status_code rv < 600 then Inl (HTTPError (status_code rv))
      else Inr ())"

definition response_json :: "http_response \<Rightarrow> error + json" where
  "response_json rv = (case content rv of None \<Rightarrow> Inl JSONDecodeError | Some j \<Rightarrow> Inr j)"

text \<open>\<^verbatim>\<open>obj[key]\<close> with a string key, \<^verbatim>\<open>obj.get(key)\<close>, \<^verbatim>\<open>iter(obj)\<close> and \<^verbatim>\<open>len(obj)\<close> on decoded JSON.\<close>

fun json_getitem :: "json \<Rightarrow> string \<Rightarrow> error + json" where
  "json_getitem (JObj kvs) k =
     (case map_of kvs k of None \<Rightarrow> Inl (KeyError k) | Some v \<Rightarrow> Inr v)"
| "json_getitem j k = Inl TypeError"

fun json_get :: "json \<Rightarrow> string \<Rightarrow> error + json" where
  "json_get (JObj kvs) k = Inr (case map_of kvs k of None \<Rightarrow> JNull | Some v \<Rightarrow> v)"
| "json_get j k = Inl AttributeError"

fun json_iter :: "json \<Rightarrow> error + json list" where
  "json_iter (JArr xs) = Inr xs"
| "json_iter (JObj kvs) = Inr (map (\<lambda>kv. JStr (fst kv)) kvs)"
| "json_iter (JStr s) = Inr (map (\<lambda>c. JStr [c]) s)"
| "json_iter j = Inl TypeError"

fun json_len :: "json \<Rightarrow> error + nat" where
  "json_len (JArr xs) = Inr (length xs)"
| "json_len (JObj kvs) = Inr (length kvs)"
| "json_len (JStr s) = Inr (length s)"
| "json_len j = Inl TypeError"

section \<open>The EOL resolver\<close>

text \<open>
  The loop of \<^verbatim>\<open>_resolve_eol\<close> over the releases, with the final \<^verbatim>\<open>raise\<close> once the
  releases are exhausted. \<open>ep\<close> is the endpoint as the messages render it.
\<close>

fun scan_releases :: "entry \<Rightarrow> string \<Rightarrow> string \<Rightarrow> json list \<Rightarrow> error + date" where
  "scan_releases entry version ep [] =
     (case getitem entry ''product'' of
        Inl err \<Rightarrow> Inl err
      | Inr p \<Rightarrow> Inl (ValueError (py_str p @ '' '' @ version @ '' not found @ '' @ ep)))"
| "scan_releases entry version ep (rel # rels) =
     (case json_get rel ''name'' of
        Inl err \<Rightarrow> Inl err
      | Inr nm \<Rightarrow>
          if nm = JStr version then
            (case json_get rel ''eolFrom'' of
               Inl err \<Rightarrow> Inl err
             | Inr eol_str \<Rightarrow>
                 if \<not> json_truthy eol_str then
                   (case getitem entry ''product'' of
                      Inl err \<Rightarrow> Inl err
                    | Inr p \<Rightarrow>
                        Inl (ValueError (''eolFrom missing for '' @ py_str p @ '' '' @ version)))
                 else (case eol_str of JStr s \<Rightarrow> iso s | _ \<Rightarrow> Inl TypeError))
          else scan_releases entry version ep rels)"

text \<open>
  \<^verbatim>\<open>payload["result"]["releases"]\<close> inside \<^verbatim>\<open>try ... except (KeyError, TypeError)\<close>.
\<close>

definition releases_of :: "string \<Rightarrow> json \<Rightarrow> error + json" where
  "releases_of ep payload =
     (case (case json_getitem payload ''result'' of
              Inl err \<Rightarrow> Inl err
            | Inr r \<Rightarrow> json_getitem r ''releases'') of
        Inl (KeyError k) \<Rightarrow>
          Inl (ValueError (''Unexpected schema from '' @ ep @ ''; expected result.releases''))
      | Inl TypeError \<Rightarrow>
          Inl (ValueError (''Unexpected schema from '' @ ep @ ''; expected result.releases''))
      | Inl err \<Rightarrow> Inl err
      | Inr releases \<Rightarrow> Inr releases)"

text \<open>What \<^verbatim>\<open>_resolve_eol\<close> does with the response, from \<^verbatim>\<open>rv.raise_for_status()\<close> on.\<close>

definition eol_from_response :: "entry \<Rightarrow> string \<Rightarrow> http_response \<Rightarrow> error + date" where
  "eol_from_response entry ep rv =
     (case raise_for_status rv of
        Inl err \<Rightarrow> Inl err
      | Inr u \<Rightarrow>
     (case response_json rv of
        Inl err \<Rightarrow> Inl err
      | Inr payload \<Rightarrow>
     (case releases_of ep payload of
        Inl err \<Rightarrow> Inl err
      | Inr releases \<Rightarrow>
     (case getitem entry ''version'' of
        Inl err \<Rightarrow> Inl err
      | Inr v \<Rightarrow>
     (case json_iter releases of
        Inl err \<Rightarrow> Inl err
      | Inr rels \<Rightarrow> scan_releases entry (py_str v) ep rels)))))"

definition resolve_eol :: "entry \<Rightarrow> world \<Rightarrow> (error + date) \<times> world" where
  "resolve_eol entry w =
     (if get_or entry ''source'' (PStr ''api'') = PStr ''manual'' then
        (case getitem entry ''eol_date'' of
           Inl err \<Rightarrow> (Inl err, w)
         | Inr d \<Rightarrow> ((case d of PStr s \<Rightarrow> iso s | _ \<Rightarrow> Inl TypeError), w))
      else
        (case getitem entry ''api_endpoint'' of
           Inl err \<Rightarrow> (Inl err, w)
         | Inr ep \<Rightarrow>
             (case requests_get (py_str ep) w of
                (Inl err, w1) \<Rightarrow> (Inl err, w1)
              | (Inr rv, w1) \<Rightarrow> (eol_from_response entry (py_str ep) rv, w1))))"

section \<open>The issue tracker\<close>

definition days_until :: "date \<Rightarrow> world \<Rightarrow> int" where
  "days_until d w = days_between d (today w)"

text \<open>
  \<^verbatim>\<open>_issue_exists(repo, title)\<close> runs \<^verbatim>\<open>gh issue list --repo repo --state all --json title
  --search 'in:title "title"' -L 1\<close> and decodes its output. An argument that is not a
  string makes \<^verbatim>\<open>subprocess.run\<close> raise before any process starts; a failing process
  (\<^verbatim>\<open>check=True\<close>) raises as well.
\<close>

definition issue_exists :: "pyval \<Rightarrow> string \<Rightarrow> world \<Rightarrow> (error + bool) \<times> world" where
  "issue_exists repo title w =
     (case repo of
        PStr r \<Rightarrow>
          (let search = ''in:title '' @ [CHR 0x22] @ title @ [CHR 0x22];
               w1 = emit (GhIssueList r search) w
           in case gh_list w (trace w) r search of
                ProcFailed \<Rightarrow> (Inl CalledProcessError, w1)
              | ProcOutput None \<Rightarrow> (Inl JSONDecodeError, w1)
              | ProcOutput (Some out) \<Rightarrow>
                  (case json_len out of
                     Inl err \<Rightarrow> (Inl err, w1)
                   | Inr n \<Rightarrow> (Inr (n > 0), w1)))
      | _ \<Rightarrow> (Inl TypeError, w))"

definition create_issue :: "pyval \<Rightarrow> string \<Rightarrow> string \<Rightarrow> world \<Rightarrow> (error + unit) \<times> world" where
  "create_issue repo title body w =
     (case repo of
        PStr r \<Rightarrow>
          (if gh_create w (trace w) r title body
           then (Inr (), emit (GhIssueCreate r title body) w)
           else (Inl CalledProcessError, emit (GhIssueCreate r title body) w))
      | _ \<Rightarrow> (Inl TypeError, w))"

text \<open>
  The body of the loop of \<^verbatim>\<open>_open_issues\<close> from the title on (an entry that has crossed
  its threshold) ...
\<close>

definition publish :: "entry \<Rightarrow> pyval \<Rightarrow> date \<Rightarrow> world \<Rightarrow> (error + unit) \<times> world" where
  "publish e repo eol w =
     (case getitem e ''product'' of
        Inl err \<Rightarrow> (Inl err, w)
      | Inr p \<Rightarrow>
     (case getitem e ''version'' of
        Inl err \<Rightarrow> (Inl err, w)
      | Inr v \<Rightarrow>
     (case title_of (py_str p) (py_str v) (isoformat eol) of
        Inl err \<Rightarrow> (Inl err, w)
      | Inr title \<Rightarrow>
     (case issue_exists repo title w of
        (Inl err, w1) \<Rightarrow> (Inl err, w1)
      | (Inr True, w1) \<Rightarrow>
          (Inr (), emit (Stdout (''Issue already exists in '' @ py_str repo @ '': '' @ title)) w1)
      | (Inr False, w1) \<Rightarrow>
     (case body_of (py_str p) (py_str v) (isoformat eol)
             (py_str (get_or e ''api_endpoint'' (PStr ''manual entry''))) of
        Inl err \<Rightarrow> (Inl err, w1)
      | Inr body \<Rightarrow>
     (case create_issue repo title body w1 of
        (Inl err, w2) \<Rightarrow> (Inl err, w2)
      | (Inr u, w2) \<Rightarrow>
          (Inr (), emit (Stdout (''Created issue in '' @ py_str repo @ '': '' @ title)) w2)))))))"

text \<open>... and the whole body: one entry of the catalog.\<close>

definition open_issues_step :: "entry \<Rightarrow> world \<Rightarrow> (error + unit) \<times> world" where
  "open_issues_step e w =
     (let repo = get_or e ''issue_repo'' PNone
      in if \<not> truthy repo then (Inr (), w)
         else
           (case py_int (get_or e ''warn_days'' (PInt 30)) of
              Inl err \<Rightarrow> (Inl err, w)
            | Inr warn \<Rightarrow>
                (case resolve_eol e w of
                   (Inl err, w1) \<Rightarrow> (Inl err, w1)
                 | (Inr eol, w1) \<Rightarrow>
                     if days_until eol w1 > warn then (Inr (), w1)
                     else publish e repo eol w1)))"

text \<open>The \<^verbatim>\<open>for\<close> loop: an exception leaves the loop and the function.\<close>

fun open_issues_loop :: "entry list \<Rightarrow> world \<Rightarrow> (error + unit) \<times> world" where
  "open_issues_loop [] w = (Inr (), w)"
| "open_issues_loop (e # es) w =
     (case open_issues_step e w of
        (Inl err, w1) \<Rightarrow> (Inl err, w1)
      | (Inr u, w1) \<Rightarrow> open_issues_loop es w1)"

definition open_issues :: "entry list \<Rightarrow> world \<Rightarrow> (error + unit) \<times> world" where
  "open_issues entries w =
     (if \<not> (case GH_TOKEN w of None \<Rightarrow> False | Some t \<Rightarrow> t \<noteq> [])
      then (Inl (SystemExit 1), emit (Stderr ''ERROR: GH_TOKEN env var not set'') w)
      else open_issues_loop entries w)"

section \<open>The calendar\<close>

text \<open>
  One iteration of \<^verbatim>\<open>_calendar\<close>: print the entry, resolve it and build its all-day event.
  The events are kept in the order they were added; what the calendar library does with
  them when it serialises is not part of the program.
\<close>

definition calendar_step :: "entry \<Rightarrow> world \<Rightarrow> (error + cal_event) \<times> world" where
  "calendar_step e w =
     (case resolve_eol e (emit (StdoutEntry e) w) of
        (Inl err, w1) \<Rightarrow> (Inl err, w1)
      | (Inr eol, w1) \<Rightarrow>
     (case getitem e ''product'' of
        Inl err \<Rightarrow> (Inl err, w1)
      | Inr p \<Rightarrow>
     (case getitem e ''version'' of
        Inl err \<Rightarrow> (Inl err, w1)
      | Inr v \<Rightarrow>
     (case title_of (py_str p) (py_str v) (isoformat eol) of
        Inl err \<Rightarrow> (Inl err, w1)
      | Inr descr \<Rightarrow>
          (Inr (CalEvent (py_str p @ '' '' @ py_str v @ '' EOL'') eol
                  (py_str p @ ''-'' @ py_str v @ ''@eol-checks'') descr), w1)))))"

fun calendar_loop ::
  "entry list \<Rightarrow> cal_event list \<Rightarrow> world \<Rightarrow> (error + cal_event list) \<times> world" where
  "calendar_loop [] cal w = (Inr cal, w)"
| "calendar_loop (e # es) cal w =
     (case calendar_step e w of
        (Inl err, w1) \<Rightarrow> (Inl err, w1)
      | (Inr evt, w1) \<Rightarrow> calendar_loop es (cal @ [evt]) w1)"

definition calendar :: "entry list \<Rightarrow> string \<Rightarrow> world \<Rightarrow> (error + unit) \<times> world" where
  "calendar entries dest w =
     (case calendar_loop entries [] w of
        (Inl err, w1) \<Rightarrow> (Inl err, w1)
      | (Inr cal, w1) \<Rightarrow>
          if fs_write w1 (trace w1) dest then (Inr (), emit (WriteText dest cal) w1)
          else (Inl OSError, w1))"

section \<open>Example inputs\<close>

text \<open>
  The entries and the upstream payload of the specification's end-to-end scenarios, and
  a world in which every collaborator answers: the endpoint serves the payload with
  status 200, the tracker knows no issue, creating and writing succeed.
\<close>

definition foo_manual :: entry where
  "foo_manual =
     [(''product'', PStr ''Foo''), (''version'', PStr ''1.0''), (''source'', PStr ''manual''),
      (''eol_date'', PStr ''2024-01-01''), (''issue_repo'', PStr ''org/repo''),
      (''warn_days'', PInt 30)]"

definition bar_api :: entry where
  "bar_api =
     [(''product'', PStr ''Bar''), (''version'', PStr ''2.0''),
      (''api_endpoint'', PStr ''https://eol.example/bar''), (''issue_repo'', PStr ''org/repo'')]"

definition bar_payload :: json where
  "bar_payload =
     JObj [(''result'', JObj [(''releases'',
       JArr [JObj [(''name'', JStr ''2.0''), (''eolFrom'', JStr ''2025-05-01'')]])])]"

definition calm_world :: world where
  "calm_world =
     \<lparr>GH_TOKEN = Some ''token'', today = Date 2023 12 15,
      http = (\<lambda>tr url. Some (Response 200 (Some bar_payload))),
      gh_list = (\<lambda>tr repo search. ProcOutput (Some (JArr []))),
      gh_create = (\<lambda>tr repo title body. True),
      fs_write = (\<lambda>tr dest. True),
      trace = []\<rparr>"

section \<open>Auxiliary facts\<close>

lemma title_of_eq:
  "title_of p v d = Inr (p @ '' '' @ v @ '' reaches EOL on '' @ d)"
  by (simp add: title_of_def TITLE_TMPL_def)

lemma takeWhile_until:
  "c \<notin> set a \<Longrightarrow> takeWhile (\<lambda>x. x \<noteq> c) (a @ c # r) = a"
  by (induction a) auto

lemma space_free_prefix:
  assumes "CHR '' '' \<notin> set a" and "CHR '' '' \<notin> set b"
    and "a @ CHR '' '' # r = b @ CHR '' '' # s"
  shows "a = b \<and> r = s"
proof -
  have "takeWhile (\<lambda>x. x \<noteq> CHR '' '') (a @ CHR '' '' # r) = a"
    using assms(1) by (rule takeWhile_until)
  moreover have "takeWhile (\<lambda>x. x \<noteq> CHR '' '') (b @ CHR '' '' # s) = b"
    using assms(2) by (rule takeWhile_until)
  ultimately have "a = b" using assms(3) by simp
  with assms(3) show ?thesis by simp
qed

lemma space_free_suffix:
  assumes "CHR '' '' \<notin> set a" and "CHR '' '' \<notin> set b"
    and "r @ CHR '' '' # a = s @ CHR '' '' # b"
  shows "r = s \<and> a = b"
proof -
  from assms(3) have "rev (r @ CHR '' '' # a) = rev (s @ CHR '' '' # b)" by simp
  then have "rev a @ CHR '' '' # rev r = rev b @ CHR '' '' # rev s" by simp
  with assms(1,2) have "rev a = rev b \<and> rev r = rev s"
    by (intro space_free_prefix) simp_all
  then show ?thesis by simp
qed

lemma of_char_digit_char: "n < 10 \<Longrightarrow> of_char (digit_char n) = (48 + n :: nat)"
  by (simp add: digit_char_def take_bit_eq_mod)

lemma digit_char_not_space: "n < 10 \<Longrightarrow> digit_char n \<noteq> CHR '' ''"
proof
  assume "n < 10" and "digit_char n = CHR '' ''"
  then have "(48 + n :: nat) = of_char (CHR '' '')" using of_char_digit_char by metis
  then show False by simp
qed

lemma str_nat_no_space: "CHR '' '' \<notin> set (str_nat n)"
proof (induction n rule: str_nat.induct)
  case (1 n)
  show ?case
  proof (cases "n < 10")
    case True
    then show ?thesis
      using digit_char_not_space [of n] by (auto simp: str_nat.simps [of n])
  next
    case False
    with 1 show ?thesis
      using digit_char_not_space [of "n mod 10"] by (auto simp: str_nat.simps [of n])
  qed
qed

lemma zero_pad_no_space: "CHR '' '' \<notin> set (zero_pad k n)"
  by (simp add: zero_pad_def str_nat_no_space)

lemma isoformat_no_space: "CHR '' '' \<notin> set (isoformat dt)"
  by (simp add: isoformat_def zero_pad_no_space)

lemma emit_fields [simp]:
  "trace (emit ev w) = trace w @ [ev]"
  "today (emit ev w) = today w"
  "GH_TOKEN (emit ev w) = GH_TOKEN w"
  "http (emit ev w) = http w"
  "gh_list (emit ev w) = gh_list w"
  "gh_create (emit ev w) = gh_create w"
  "fs_write (emit ev w) = fs_write w"
  by (simp_all add: emit_def)

lemma source_is_manual:
  "(get_or e ''source'' (PStr ''api'') = PStr ''manual'') = (map_of e ''source'' = Some (PStr ''manual''))"
  by (cases "map_of e ''source''") (simp_all add: get_or_def)

lemma resolve_eol_manual:
  "map_of e ''source'' = Some (PStr ''manual'') \<Longrightarrow>
   resolve_eol e w =
     ((case map_of e ''eol_date'' of
         None \<Rightarrow> Inl (KeyError ''eol_date'')
       | Some (PStr s) \<Rightarrow> iso s
       | Some _ \<Rightarrow> Inl TypeError), w)"
  by (simp add: resolve_eol_def source_is_manual getitem_def split: option.splits pyval.splits)

lemma resolve_eol_api:
  "map_of e ''source'' \<noteq> Some (PStr ''manual'') \<Longrightarrow>
   resolve_eol e w =
     (case map_of e ''api_endpoint'' of
        None \<Rightarrow> (Inl (KeyError ''api_endpoint''), w)
      | Some ep \<Rightarrow>
          ((case http w (trace w) (py_str ep) of
              None \<Rightarrow> Inl RequestException
            | Some rv \<Rightarrow> eol_from_response e (py_str ep) rv),
           emit (HttpGet (py_str ep)) w))"
  by (simp add: resolve_eol_def source_is_manual getitem_def requests_get_def split: option.splits)

lemma step_no_repo:
  "map_of e ''issue_repo'' = None \<Longrightarrow> open_issues_step e w = (Inr (), w)"
  by (simp add: open_issues_step_def get_or_def)



lemma resolve_eol_token:
  "resolve_eol e (w\<lparr>GH_TOKEN := t\<rparr>) =
     (fst (resolve_eol e w), (snd (resolve_eol e w))\<lparr>GH_TOKEN := t\<rparr>)"
  by (simp add: resolve_eol_def requests_get_def emit_def split: sum.splits option.splits pyval.splits)

lemma emit_token:
  "emit ev (w\<lparr>GH_TOKEN := t\<rparr>) = (emit ev w)\<lparr>GH_TOKEN := t\<rparr>"
  by (simp add: emit_def)

lemma calendar_step_token:
  "calendar_step e (w\<lparr>GH_TOKEN := t\<rparr>) =
     (fst (calendar_step e w), (snd (calendar_step e w))\<lparr>GH_TOKEN := t\<rparr>)"
  by (cases "resolve_eol e (emit (StdoutEntry e) w)")
     (simp add: calendar_step_def emit_token resolve_eol_token split: sum.splits)

lemma calendar_loop_token:
  "calendar_loop es cal (w\<lparr>GH_TOKEN := t\<rparr>) =
     (fst (calendar_loop es cal w), (snd (calendar_loop es cal w))\<lparr>GH_TOKEN := t\<rparr>)"
proof (induction es arbitrary: cal w)
  case Nil
  show ?case by simp
next
  case (Cons e es)
  show ?case
    by (cases "calendar_step e w") (simp add: calendar_step_token Cons.IH split: sum.splits)
qed

lemma calendar_token:
  "calendar es dest (w\<lparr>GH_TOKEN := t\<rparr>) =
     (fst (calendar es dest w), (snd (calendar es dest w))\<lparr>GH_TOKEN := t\<rparr>)"
  by (cases "calendar_loop es [] w")
     (simp add: calendar_def calendar_loop_token emit_token split: sum.splits)

lemma body_of_eq:
  "body_of p v d s =
     Inr ([CHR 0xE2, CHR 0x9A, CHR 0xA0, CHR 0xEF, CHR 0xB8, CHR 0x8F] @ '' **End'' @
          [CHR 0xE2, CHR 0x80, CHR 0x91] @ ''of'' @ [CHR 0xE2, CHR 0x80, CHR 0x91] @
          ''life approaching**'' @ [CHR 10, CHR 10] @ ''* **Product:** '' @ p @ '' '' @ v @
          [CHR 10] @ ''* **EOL date:** '' @ d @ [CHR 10, CHR 10] @ ''_Source: '' @ s @
          ''_'' @ [CHR 10])"
  by (simp add: body_of_def BODY_TMPL_def)

lemma resolve_eol_world:
  "snd (resolve_eol e w) = w \<or> (\<exists>u. snd (resolve_eol e w) = emit (HttpGet u) w)"
  by (auto simp: resolve_eol_def requests_get_def split: sum.splits option.splits pyval.splits)

lemma issue_exists_world:
  "issue_exists repo t w = (res, w1) \<Longrightarrow>
     fst (issue_exists repo t w) = res \<and>
     (case repo of
        PStr r \<Rightarrow> w1 = emit (GhIssueList r (''in:title '' @ [CHR 0x22] @ t @ [CHR 0x22])) w
      | _ \<Rightarrow> w1 = w \<and> res = Inl TypeError)"
  by (auto simp: issue_exists_def Let_def split: pyval.splits proc_result.splits option.splits sum.splits)

lemma create_issue_world:
  "create_issue repo t b w = (res, w1) \<Longrightarrow>
     fst (create_issue repo t b w) = res \<and>
     (case repo of
        PStr r \<Rightarrow> w1 = emit (GhIssueCreate r t b) w
      | _ \<Rightarrow> w1 = w \<and> res = Inl TypeError)"
  by (auto simp: create_issue_def split: pyval.splits if_splits)

lemma publish_create:
  assumes "GhIssueCreate r t b \<in> set (drop (length (trace w)) (trace (snd (publish e repo eol w))))"
  shows "\<exists>p v. map_of e ''product'' = Some p \<and> map_of e ''version'' = Some v \<and>
           repo = PStr r \<and>
           title_of (py_str p) (py_str v) (isoformat eol) = Inr t \<and>
           body_of (py_str p) (py_str v) (isoformat eol)
             (py_str (get_or e ''api_endpoint'' (PStr ''manual entry''))) = Inr b \<and>
           fst (issue_exists repo t w) = Inr False"
  using assms
  by (auto simp: publish_def getitem_def
        dest!: issue_exists_world create_issue_world
        split: option.splits sum.splits prod.splits bool.splits pyval.splits)


lemma publish_trace_prefix:
  "\<exists>evs. trace (snd (publish e repo eol w)) = trace w @ evs"
  by (auto simp: publish_def
        dest!: issue_exists_world create_issue_world
        split: option.splits sum.splits prod.splits bool.splits pyval.splits)

lemma step_eligible:
  assumes "truthy (get_or e ''issue_repo'' PNone)"
    and "py_int (get_or e ''warn_days'' (PInt 30)) = Inr warn"
    and "resolve_eol e w = (Inr eol, w1)"
  shows "open_issues_step e w =
     (if days_until eol w1 > warn then (Inr (), w1)
      else publish e (get_or e ''issue_repo'' PNone) eol w1)"
  using assms by (simp add: open_issues_step_def Let_def)

lemma step_cases:
  "open_issues_step e w = (Inr (), w) \<or>
   (\<exists>err. open_issues_step e w = (Inl err, w)) \<or>
   (\<exists>err. open_issues_step e w = (Inl err, snd (resolve_eol e w))) \<or>
   open_issues_step e w = (Inr (), snd (resolve_eol e w)) \<or>
   (\<exists>eol. fst (resolve_eol e w) = Inr eol \<and>
      open_issues_step e w =
        publish e (get_or e ''issue_repo'' PNone) eol (snd (resolve_eol e w)))"
proof (cases "resolve_eol e w")
  case (Pair res w1)
  show ?thesis
  proof (cases "py_int (get_or e ''warn_days'' (PInt 30))")
    case (Inl err)
    then show ?thesis by (simp add: open_issues_step_def Let_def)
  next
    case (Inr warn)
    with Pair show ?thesis
      by (cases res) (simp_all add: open_issues_step_def Let_def)
  qed
qed

lemma new_events_after_resolve:
  assumes "trace w2 = trace (snd (resolve_eol e w)) @ evs"
  shows "\<exists>hs. drop (length (trace w)) (trace w2) = hs @ evs \<and>
           (\<forall>h\<in>set hs. \<exists>u. h = HttpGet u) \<and>
           drop (length (trace (snd (resolve_eol e w)))) (trace w2) = evs"
  using assms resolve_eol_world [of e w] by auto

lemma step_create:
  assumes "GhIssueCreate r t b \<in> set (drop (length (trace w)) (trace (snd (open_issues_step e w))))"
  shows "\<exists>eol. fst (resolve_eol e w) = Inr eol \<and>
           open_issues_step e w =
             publish e (get_or e ''issue_repo'' PNone) eol (snd (resolve_eol e w)) \<and>
           GhIssueCreate r t b \<in> set (drop (length (trace (snd (resolve_eol e w))))
             (trace (snd (publish e (get_or e ''issue_repo'' PNone) eol (snd (resolve_eol e w))))))"
proof -
  have quiet: False if "trace (snd (open_issues_step e w)) = trace w \<or>
      trace (snd (open_issues_step e w)) = trace (snd (resolve_eol e w))"
  proof -
    from that resolve_eol_world [of e w]
    have "\<forall>h\<in>set (drop (length (trace w)) (trace (snd (open_issues_step e w)))). \<exists>u. h = HttpGet u"
      by auto
    with assms show False by blast
  qed
  from step_cases [of e w] quiet
  obtain eol where eol: "fst (resolve_eol e w) = Inr eol"
    and st: "open_issues_step e w =
        publish e (get_or e ''issue_repo'' PNone) eol (snd (resolve_eol e w))"
    by fastforce
  obtain evs where evs: "trace (snd (publish e (get_or e ''issue_repo'' PNone) eol (snd (resolve_eol e w))))
      = trace (snd (resolve_eol e w)) @ evs"
    using publish_trace_prefix by blast
  from new_events_after_resolve [OF evs] obtain hs where
    hs: "drop (length (trace w)) (trace (snd (publish e (get_or e ''issue_repo'' PNone) eol (snd (resolve_eol e w))))) = hs @ evs"
      "\<forall>h\<in>set hs. \<exists>u. h = HttpGet u"
      "drop (length (trace (snd (resolve_eol e w)))) (trace (snd (publish e (get_or e ''issue_repo'' PNone) eol (snd (resolve_eol e w))))) = evs"
    by blast
  from assms st hs(1) have "GhIssueCreate r t b \<in> set (hs @ evs)" by simp
  with hs(2) have "GhIssueCreate r t b \<in> set evs" by auto
  with hs(3) eol st show ?thesis by auto
qed


lemma raise_for_status_ok:
  "\<not> (400 \<le> st \<and> st < 600) \<Longrightarrow> raise_for_status (Response st c) = Inr ()"
  by (auto simp: raise_for_status_def)

lemma raise_for_status_error:
  "400 \<le> st \<and> st < 600 \<Longrightarrow> raise_for_status (Response st c) = Inl (HTTPError st)"
  by (auto simp: raise_for_status_def)

lemma scan_skip:
  "\<forall>r\<in>set pre. \<exists>nm. json_get r ''name'' = Inr nm \<and> nm \<noteq> JStr ver \<Longrightarrow>
   scan_releases e ver ep (pre @ rest) = scan_releases e ver ep rest"
  by (induction pre) auto

lemma releases_of_ok:
  "json_getitem payload ''result'' = Inr res \<Longrightarrow> json_getitem res ''releases'' = Inr rels \<Longrightarrow>
   releases_of ep payload = Inr rels"
  by (simp add: releases_of_def)

lemma json_getitem_error:
  "json_getitem j k = Inl err \<Longrightarrow> err = TypeError \<or> err = KeyError k"
  by (cases j) (auto split: option.splits)

lemma releases_of_schema:
  assumes "\<forall>res. json_getitem payload ''result'' = Inr res \<longrightarrow>
             (\<exists>err. json_getitem res ''releases'' = Inl err)"
  shows "releases_of ep payload =
     Inl (ValueError (''Unexpected schema from '' @ ep @ ''; expected result.releases''))"
proof (cases "json_getitem payload ''result''")
  case (Inl err)
  with json_getitem_error [OF Inl] show ?thesis by (auto simp: releases_of_def)
next
  case (Inr res)
  with assms obtain err where err: "json_getitem res ''releases'' = Inl err" by blast
  with Inr json_getitem_error [OF err] show ?thesis by (auto simp: releases_of_def)
qed

lemmas model_defs = getitem_def get_or_def resolve_eol_def requests_get_def emit_def
  eol_from_response_def raise_for_status_def response_json_def releases_of_def
  iso_def fromisoformat_def is_digit_def digits_val_def days_in_month_def is_leap_def
  open_issues_step_def publish_def issue_exists_def create_issue_def days_until_def
  open_issues_def calendar_def calendar_step_def

lemma iso_2024: "isoformat (Date 2024 1 1) = ''2024-01-01''"
  by code_simp

lemma days_examples:
  "days_between (Date 2024 1 1) (Date 2023 12 15) = 17"
  "days_between (Date 2024 1 1) (Date 2023 12 2) = 30"
  "days_between (Date 2024 1 1) (Date 2023 10 1) = 92"
  "days_between (Date 2024 1 1) (Date 2040 1 1) = - 5844"
  by code_simp+

lemma resolve_foo: "resolve_eol foo_manual w = (Inr (Date 2024 1 1), w)"
  by (simp add: foo_manual_def model_defs)

lemma foo_fields:
  "map_of foo_manual ''issue_repo'' = Some (PStr ''org/repo'')"
  "map_of foo_manual ''product'' = Some (PStr ''Foo'')"
  "map_of foo_manual ''version'' = Some (PStr ''1.0'')"
  "map_of foo_manual ''source'' = Some (PStr ''manual'')"
  "map_of foo_manual ''api_endpoint'' = None"
  "py_int (get_or foo_manual ''warn_days'' (PInt 30)) = Inr 30"
  by (simp_all add: foo_manual_def get_or_def)

lemma bar_fields:
  "map_of bar_api ''source'' \<noteq> Some (PStr ''manual'')"
  "map_of bar_api ''api_endpoint'' = Some (PStr ''https://eol.example/bar'')"
  "map_of bar_api ''version'' = Some (PStr ''2.0'')"
  "map_of bar_api ''product'' = Some (PStr ''Bar'')"
  by (simp_all add: bar_api_def)









lemma calendar_foo:
  "fst (calendar [foo_manual] ''eol.ics'' calm_world) = Inr ()"
  by (simp add: calendar_def calendar_step_def resolve_foo getitem_def foo_fields title_of_eq
        calm_world_def emit_def)

section \<open>Properties of the specification\<close>

subsection \<open>The warning threshold\<close>




subsection \<open>Resolving through the API\<close>

text \<open>
  C2. For an entry on the API path (its source is not \<open>manual\<close>) whose endpoint answers with
  a payload of shape \<open>result.releases\<close>, a list of release records: the resolver returns
  the parsed \<open>eolFrom\<close> of the first record, in list order, whose \<open>name\<close> is the string
  \<open>str(version)\<close> itself (records before it have another name, however close), and it
  calls \<^verbatim>\<open>requests.get\<close> exactly once, on the entry's \<open>api_endpoint\<close>.
\<close>

theorem resolve_returns_first_match:
  assumes "map_of e ''source'' \<noteq> Some (PStr ''manual'')"
    and "map_of e ''api_endpoint'' = Some ep"
    and "map_of e ''version'' = Some v"
    and "http w (trace w) (py_str ep) = Some (Response st (Some payload))"
    and "\<not> (400 \<le> st \<and> st < 600)"
    and "json_getitem payload ''result'' = Inr res"
    and "json_getitem res ''releases'' = Inr (JArr (pre @ rel # post))"
    and "\<forall>r\<in>set pre. \<exists>nm. json_get r ''name'' = Inr nm \<and> nm \<noteq> JStr (py_str v)"
    and "json_get rel ''name'' = Inr (JStr (py_str v))"
    and "json_get rel ''eolFrom'' = Inr (JStr s)" and "s \<noteq> []"
  shows "resolve_eol e w = (iso s, emit (HttpGet (py_str ep)) w) \<and>
         trace (snd (resolve_eol e w)) = trace w @ [HttpGet (py_str ep)]"
proof -
  have "scan_releases e (py_str v) (py_str ep) (pre @ rel # post) = iso s"
    using assms(9,10,11) by (simp add: scan_skip [OF assms(8)])
  then have "eol_from_response e (py_str ep) (Response st (Some payload)) = iso s"
    using assms(3) releases_of_ok [OF assms(6,7)]
    by (simp add: eol_from_response_def raise_for_status_ok [OF assms(5)] response_json_def getitem_def)
  then show ?thesis
    using assms(1,2,4) by (simp add: resolve_eol_api)
qed

theorem resolve_returns_first_match_witness:
  "resolve_eol bar_api
     (calm_world\<lparr>http := \<lambda>tr url. Some (Response 200 (Some (JObj [(''result'', JObj [(''releases'',
        JArr [JObj [(''name'', JStr ''2.0.0''), (''eolFrom'', JStr ''2030-01-01'')],
              JObj [(''name'', JStr ''2.0''), (''eolFrom'', JStr ''2025-05-01'')],
              JObj [(''name'', JStr ''2.0''), (''eolFrom'', JStr ''2026-06-01'')]])])])))\<rparr>)
   = (Inr (Date 2025 5 1),
      emit (HttpGet ''https://eol.example/bar'')
        (calm_world\<lparr>http := \<lambda>tr url. Some (Response 200 (Some (JObj [(''result'', JObj [(''releases'',
        JArr [JObj [(''name'', JStr ''2.0.0''), (''eolFrom'', JStr ''2030-01-01'')],
              JObj [(''name'', JStr ''2.0''), (''eolFrom'', JStr ''2025-05-01'')],
              JObj [(''name'', JStr ''2.0''), (''eolFrom'', JStr ''2026-06-01'')]])])])))\<rparr>))"
proof -
  have parsed: "iso ''2025-05-01'' = Inr (Date 2025 5 1)"
    by (simp add: model_defs)
  from resolve_returns_first_match
    [of bar_api "PStr ''https://eol.example/bar''" "PStr ''2.0''" _ 200 _
        "JObj [(''releases'',
           JArr [JObj [(''name'', JStr ''2.0.0''), (''eolFrom'', JStr ''2030-01-01'')],
                 JObj [(''name'', JStr ''2.0''), (''eolFrom'', JStr ''2025-05-01'')],
                 JObj [(''name'', JStr ''2.0''), (''eolFrom'', JStr ''2026-06-01'')]])]"
        "[JObj [(''name'', JStr ''2.0.0''), (''eolFrom'', JStr ''2030-01-01'')]]"
        "JObj [(''name'', JStr ''2.0''), (''eolFrom'', JStr ''2025-05-01'')]"
        "[JObj [(''name'', JStr ''2.0''), (''eolFrom'', JStr ''2026-06-01'')]]"
        "''2025-05-01''", OF bar_fields(1,2,3)]
  show ?thesis
    by (simp add: parsed del: One_nat_def)
qed

subsection \<open>Failures of the resolver\<close>

text \<open>
  C3, as the program has it. For an entry on the API path the resolver returns an error,
  never a date, when: the response status is a client or server error (400 to 599, the
  codes for which \<^verbatim>\<open>raise_for_status\<close> raises); the payload has no \<open>result\<close> or no
  \<open>result.releases\<close> (a \<open>ValueError\<close> naming the endpoint); no release record is named
  \<open>str(version)\<close> (a \<open>ValueError\<close> naming product, version and endpoint); the first
  matching record has no \<open>eolFrom\<close> or an empty one (a \<open>ValueError\<close> naming product and
  version). A status outside 200 to 299 that is not an error code does not raise: see
  the example that follows the theorem.
\<close>

theorem resolve_failures_are_errors:
  assumes "map_of e ''source'' \<noteq> Some (PStr ''manual'')"
    and "map_of e ''api_endpoint'' = Some ep"
    and "http w (trace w) (py_str ep) = Some (Response st body)"
  shows "(400 \<le> st \<and> st < 600 \<longrightarrow> fst (resolve_eol e w) = Inl (HTTPError st)) \<and>
    (\<not> (400 \<le> st \<and> st < 600) \<and> body = Some payload \<and>
     (\<forall>res. json_getitem payload ''result'' = Inr res \<longrightarrow>
        (\<exists>err. json_getitem res ''releases'' = Inl err)) \<longrightarrow>
       fst (resolve_eol e w) =
         Inl (ValueError (''Unexpected schema from '' @ py_str ep @ ''; expected result.releases''))) \<and>
    (\<not> (400 \<le> st \<and> st < 600) \<and> body = Some payload \<and>
     json_getitem payload ''result'' = Inr res \<and>
     json_getitem res ''releases'' = Inr (JArr rels) \<and>
     map_of e ''version'' = Some v \<and> map_of e ''product'' = Some p \<and>
     (\<forall>r\<in>set rels. \<exists>nm. json_get r ''name'' = Inr nm \<and> nm \<noteq> JStr (py_str v)) \<longrightarrow>
       fst (resolve_eol e w) =
         Inl (ValueError (py_str p @ '' '' @ py_str v @ '' not found @ '' @ py_str ep))) \<and>
    (\<not> (400 \<le> st \<and> st < 600) \<and> body = Some payload \<and>
     json_getitem payload ''result'' = Inr res \<and>
     json_getitem res ''releases'' = Inr (JArr (pre @ rel # post)) \<and>
     map_of e ''version'' = Some v \<and> map_of e ''product'' = Some p \<and>
     (\<forall>r\<in>set pre. \<exists>nm. json_get r ''name'' = Inr nm \<and> nm \<noteq> JStr (py_str v)) \<and>
     json_get rel ''name'' = Inr (JStr (py_str v)) \<and>
     json_get rel ''eolFrom'' = Inr x \<and> \<not> json_truthy x \<longrightarrow>
       fst (resolve_eol e w) =
         Inl (ValueError (''eolFrom missing for '' @ py_str p @ '' '' @ py_str v)))"
proof -
  have r: "fst (resolve_eol e w) = eol_from_response e (py_str ep) (Response st body)"
    using assms by (simp add: resolve_eol_api)
  have a: "eol_from_response e (py_str ep) (Response st body) = Inl (HTTPError st)"
    if "400 \<le> st \<and> st < 600"
    by (simp add: eol_from_response_def raise_for_status_error [OF that])
  have b: "eol_from_response e (py_str ep) (Response st (Some payload)) =
      Inl (ValueError (''Unexpected schema from '' @ py_str ep @ ''; expected result.releases''))"
    if "\<not> (400 \<le> st \<and> st < 600)"
      and "\<forall>res. json_getitem payload ''result'' = Inr res \<longrightarrow>
        (\<exists>err. json_getitem res ''releases'' = Inl err)"
    using releases_of_schema [OF that(2)]
    by (simp add: eol_from_response_def raise_for_status_ok [OF that(1)] response_json_def)
  have c: "eol_from_response e (py_str ep) (Response st (Some payload)) =
      Inl (ValueError (py_str p @ '' '' @ py_str v @ '' not found @ '' @ py_str ep))"
    if "\<not> (400 \<le> st \<and> st < 600)" and "json_getitem payload ''result'' = Inr res"
      and "json_getitem res ''releases'' = Inr (JArr rels)"
      and "map_of e ''version'' = Some v" and "map_of e ''product'' = Some p"
      and "\<forall>r\<in>set rels. \<exists>nm. json_get r ''name'' = Inr nm \<and> nm \<noteq> JStr (py_str v)"
  proof -
    have "scan_releases e (py_str v) (py_str ep) (rels @ []) =
        Inl (ValueError (py_str p @ '' '' @ py_str v @ '' not found @ '' @ py_str ep))"
      unfolding scan_skip [OF that(6)] using that(5) by (simp add: getitem_def)
    then show ?thesis
      using that(4) releases_of_ok [OF that(2,3)]
      by (simp add: eol_from_response_def raise_for_status_ok [OF that(1)] response_json_def getitem_def)
  qed
  have d: "eol_from_response e (py_str ep) (Response st (Some payload)) =
      Inl (ValueError (''eolFrom missing for '' @ py_str p @ '' '' @ py_str v))"
    if "\<not> (400 \<le> st \<and> st < 600)" and "json_getitem payload ''result'' = Inr res"
      and "json_getitem res ''releases'' = Inr (JArr (pre @ rel # post))"
      and "map_of e ''version'' = Some v" and "map_of e ''product'' = Some p"
      and "\<forall>r\<in>set pre. \<exists>nm. json_get r ''name'' = Inr nm \<and> nm \<noteq> JStr (py_str v)"
      and "json_get rel ''name'' = Inr (JStr (py_str v))"
      and "json_get rel ''eolFrom'' = Inr x" and "\<not> json_truthy x"
  proof -
    have "scan_releases e (py_str v) (py_str ep) (pre @ rel # post) =
        Inl (ValueError (''eolFrom missing for '' @ py_str p @ '' '' @ py_str v))"
      unfolding scan_skip [OF that(6)] using that(5,7,8,9) by (simp add: getitem_def)
    then show ?thesis
      using that(4) releases_of_ok [OF that(2,3)]
      by (simp add: eol_from_response_def raise_for_status_ok [OF that(1)] response_json_def getitem_def)
  qed
  from a b c d show ?thesis unfolding r by blast
qed

theorem resolve_failures_are_errors_witness:
  "fst (resolve_eol bar_api (calm_world\<lparr>http := \<lambda>tr url. Some (Response 404 (Some bar_payload))\<rparr>))
     = Inl (HTTPError 404) \<and>
   fst (resolve_eol bar_api (calm_world\<lparr>http := \<lambda>tr url. Some (Response 200 (Some (JObj [])))\<rparr>))
     = Inl (ValueError ''Unexpected schema from https://eol.example/bar; expected result.releases'') \<and>
   fst (resolve_eol bar_api (calm_world\<lparr>http := \<lambda>tr url. Some (Response 200 (Some
          (JObj [(''result'', JObj [(''releases'',
             JArr [JObj [(''name'', JStr ''1.0''), (''eolFrom'', JStr ''2020-01-01'')]])])])))\<rparr>))
     = Inl (ValueError ''Bar 2.0 not found @ https://eol.example/bar'') \<and>
   fst (resolve_eol bar_api (calm_world\<lparr>http := \<lambda>tr url. Some (Response 200 (Some
          (JObj [(''result'', JObj [(''releases'', JArr [JObj [(''name'', JStr ''2.0'')]])])])))\<rparr>))
     = Inl (ValueError ''eolFrom missing for Bar 2.0'')"
proof -
  note f = resolve_failures_are_errors [OF bar_fields(1,2)]
  have a: "fst (resolve_eol bar_api (calm_world\<lparr>http := \<lambda>tr url. Some (Response 404 (Some bar_payload))\<rparr>))
     = Inl (HTTPError 404)"
    using f [where st = 404 and body = "Some bar_payload"] by simp
  have b: "fst (resolve_eol bar_api (calm_world\<lparr>http := \<lambda>tr url. Some (Response 200 (Some (JObj [])))\<rparr>))
     = Inl (ValueError ''Unexpected schema from https://eol.example/bar; expected result.releases'')"
    using f [where st = 200 and body = "Some (JObj [])" and payload = "JObj []"] by simp
  have c: "fst (resolve_eol bar_api (calm_world\<lparr>http := \<lambda>tr url. Some (Response 200 (Some
          (JObj [(''result'', JObj [(''releases'',
             JArr [JObj [(''name'', JStr ''1.0''), (''eolFrom'', JStr ''2020-01-01'')]])])])))\<rparr>))
     = Inl (ValueError ''Bar 2.0 not found @ https://eol.example/bar'')"
    using f [where st = 200
        and body = "Some (JObj [(''result'', JObj [(''releases'',
             JArr [JObj [(''name'', JStr ''1.0''), (''eolFrom'', JStr ''2020-01-01'')]])])])"
        and payload = "JObj [(''result'', JObj [(''releases'',
             JArr [JObj [(''name'', JStr ''1.0''), (''eolFrom'', JStr ''2020-01-01'')]])])]"
        and res = "JObj [(''releases'',
             JArr [JObj [(''name'', JStr ''1.0''), (''eolFrom'', JStr ''2020-01-01'')]])]"
        and rels = "[JObj [(''name'', JStr ''1.0''), (''eolFrom'', JStr ''2020-01-01'')]]"
        and v = "PStr ''2.0''" and p = "PStr ''Bar''"]
    by (simp add: bar_fields)
  have d: "fst (resolve_eol bar_api (calm_world\<lparr>http := \<lambda>tr url. Some (Response 200 (Some
          (JObj [(''result'', JObj [(''releases'', JArr [JObj [(''name'', JStr ''2.0'')]])])])))\<rparr>))
     = Inl (ValueError ''eolFrom missing for Bar 2.0'')"
    using f [where st = 200
        and body = "Some (JObj [(''result'', JObj [(''releases'', JArr [JObj [(''name'', JStr ''2.0'')]])])])"
        and payload = "JObj [(''result'', JObj [(''releases'', JArr [JObj [(''name'', JStr ''2.0'')]])])]"
        and res = "JObj [(''releases'', JArr [JObj [(''name'', JStr ''2.0'')]])]"
        and v = "PStr ''2.0''" and p = "PStr ''Bar''" and pre = "[]"
        and rel = "JObj [(''name'', JStr ''2.0'')]" and post = "[]" and x = JNull]
    by (simp add: bar_fields)
  from a b c d show ?thesis by blast
qed

text \<open>
  A response with status 300 (not followed as a redirect, and not a 2xx status) that
  carries the usual payload is resolved like a successful one.
\<close>

theorem redirect_status_counterexample:
  "\<not> (200 \<le> (300::nat) \<and> (300::nat) < 300) \<and>
   fst (resolve_eol bar_api (calm_world\<lparr>http := \<lambda>tr url. Some (Response 300 (Some bar_payload))\<rparr>))
     = Inr (Date 2025 5 1)"
  by (simp add: bar_api_def bar_payload_def model_defs)

subsection \<open>The title as de-duplication key\<close>

text \<open>
  C4, as the template has it. The title is a function of the triple (product, version,
  EOL date) alone and is always the string \<open>product version reaches EOL on eol_date\<close>.
  The template separates product and version by a single space, so the triples are told
  apart by their titles when version and date contain no space, whatever the product
  (it may have several words); the date the program puts in, an ISO date, never
  contains one. A space inside the version is enough for two triples to collide, also
  when no string contains the text \<open>reaches EOL on\<close>: see the example after the theorem.
\<close>

theorem title_is_injective_key:
  "title_of p v d = Inr (p @ '' '' @ v @ '' reaches EOL on '' @ d) \<and>
   (CHR '' '' \<notin> set v \<and> CHR '' '' \<notin> set d \<and> CHR '' '' \<notin> set v' \<and> CHR '' '' \<notin> set d' \<and>
      title_of p v d = title_of p' v' d'
    \<longrightarrow> p = p' \<and> v = v' \<and> d = d') \<and>
   CHR '' '' \<notin> set (isoformat dt)"
proof (intro conjI)
  show "title_of p v d = Inr (p @ '' '' @ v @ '' reaches EOL on '' @ d)"
    by (rule title_of_eq)
  show "CHR '' '' \<notin> set (isoformat dt)"
    by (rule isoformat_no_space)
  show "CHR '' '' \<notin> set v \<and> CHR '' '' \<notin> set d \<and> CHR '' '' \<notin> set v' \<and> CHR '' '' \<notin> set d' \<and>
      title_of p v d = title_of p' v' d'
    \<longrightarrow> p = p' \<and> v = v' \<and> d = d'"
  proof
    assume h: "CHR '' '' \<notin> set v \<and> CHR '' '' \<notin> set d \<and> CHR '' '' \<notin> set v' \<and> CHR '' '' \<notin> set d' \<and>
      title_of p v d = title_of p' v' d'"
    then have "(p @ '' '' @ v @ '' reaches EOL on'') @ CHR '' '' # d
        = (p' @ '' '' @ v' @ '' reaches EOL on'') @ CHR '' '' # d'"
      by (simp add: title_of_eq)
    with h have 1: "p @ '' '' @ v @ '' reaches EOL on'' = p' @ '' '' @ v' @ '' reaches EOL on''
        \<and> d = d'"
      by (intro space_free_suffix) simp_all
    then have "(p @ CHR '' '' # v) @ '' reaches EOL on'' = (p' @ CHR '' '' # v') @ '' reaches EOL on''"
      by simp
    then have "p @ CHR '' '' # v = p' @ CHR '' '' # v'"
      by (simp only: append_same_eq)
    with h have "p = p' \<and> v = v'"
      by (intro space_free_suffix) simp_all
    with 1 show "p = p' \<and> v = v' \<and> d = d'" by simp
  qed
qed

theorem title_is_injective_key_witness:
  "CHR '' '' \<notin> set ''13'' \<and> CHR '' '' \<notin> set ''14'' \<and> CHR '' '' \<notin> set ''2024-01-01'' \<and>
   title_of ''Tor Browser'' ''13'' ''2024-01-01'' = Inr ''Tor Browser 13 reaches EOL on 2024-01-01'' \<and>
   title_of ''Tor Browser'' ''13'' ''2024-01-01'' \<noteq> title_of ''Tor Browser'' ''14'' ''2024-01-01'' \<and>
   title_of ''Tor Browser'' ''13'' ''2024-01-01'' \<noteq> title_of ''Tor'' ''13'' ''2024-01-01'' \<and>
   CHR '' '' \<notin> set (isoformat (Date 2024 1 1))"
  using title_is_injective_key [of "''Tor Browser''" "''13''" "''2024-01-01''" "''14''" "''2024-01-01''" "''Tor Browser''" "Date 2024 1 1"]
    title_is_injective_key [of "''Tor Browser''" "''13''" "''2024-01-01''" "''13''" "''2024-01-01''" "''Tor''" "Date 2024 1 1"]
  by auto

text \<open>
  \<open>Tor Browser\<close> in version \<open>13\<close> and \<open>Tor\<close> in version \<open>Browser 13\<close> have the same title,
  and none of the four strings contains the separator text of the template.
\<close>

theorem title_collision_counterexample:
  "\<not> sublist '' reaches EOL on '' ''Tor Browser'' \<and> \<not> sublist '' reaches EOL on '' ''13'' \<and>
   \<not> sublist '' reaches EOL on '' ''Tor'' \<and> \<not> sublist '' reaches EOL on '' ''Browser 13'' \<and>
   (''Tor Browser'', ''13'', ''2024-01-01'') \<noteq> (''Tor'', ''Browser 13'', ''2024-01-01'') \<and>
   title_of ''Tor Browser'' ''13'' ''2024-01-01'' = title_of ''Tor'' ''Browser 13'' ''2024-01-01''"
  by (simp add: title_of_eq sublist_code)

subsection \<open>Existing issues\<close>



subsection \<open>Failures and the rest of the catalog\<close>




subsection \<open>The issue body\<close>

text \<open>
  C7. Every created issue is to carry the body of the fixed template with the entry's
  product, version and EOL date, and as source reference the entry's API endpoint, or
  the literal \<open>manual entry\<close> exactly when the entry's source is \<open>manual\<close>. The resolver
  tells a manual entry by its \<open>source\<close> field and then never consults the endpoint; the
  body tells it by the absence of \<open>api_endpoint\<close>. On a manual entry that also carries an
  endpoint the two disagree: the date comes from \<open>eol_date\<close>, and the issue names the
  endpoint as the source of it.
\<close>

theorem manual_entry_with_endpoint_source_ref:
  "map_of ((''api_endpoint'', PStr ''https://eol.example/foo'') # foo_manual) ''source''
     = Some (PStr ''manual'') \<and>
   trace (snd (open_issues_step ((''api_endpoint'', PStr ''https://eol.example/foo'') # foo_manual)
     calm_world)) =
     [GhIssueList ''org/repo'' (''in:title '' @ [CHR 0x22] @ ''Foo 1.0 reaches EOL on 2024-01-01'' @ [CHR 0x22]),
      GhIssueCreate ''org/repo'' ''Foo 1.0 reaches EOL on 2024-01-01''
        ([CHR 0xE2, CHR 0x9A, CHR 0xA0, CHR 0xEF, CHR 0xB8, CHR 0x8F] @ '' **End'' @
            [CHR 0xE2, CHR 0x80, CHR 0x91] @ ''of'' @ [CHR 0xE2, CHR 0x80, CHR 0x91] @
            ''life approaching**'' @ [CHR 10, CHR 10] @ ''* **Product:** Foo 1.0'' @
            [CHR 10] @ ''* **EOL date:** 2024-01-01'' @ [CHR 10, CHR 10] @
            ''_Source: https://eol.example/foo_'' @ [CHR 10]),
      Stdout ''Created issue in org/repo: Foo 1.0 reaches EOL on 2024-01-01'']"
proof -
  have r: "resolve_eol ((''api_endpoint'', PStr ''https://eol.example/foo'') # foo_manual) calm_world
      = (Inr (Date 2024 1 1), calm_world)"
    by (simp add: foo_manual_def model_defs)
  have due: "\<not> days_until (Date 2024 1 1) calm_world > 30"
    by (simp add: days_until_def calm_world_def days_examples del: One_nat_def)
  have i: "py_int (get_or ((''api_endpoint'', PStr ''https://eol.example/foo'') # foo_manual)
      ''warn_days'' (PInt 30)) = Inr 30"
    by (simp add: foo_manual_def get_or_def)
  have "open_issues_step ((''api_endpoint'', PStr ''https://eol.example/foo'') # foo_manual) calm_world =
      publish ((''api_endpoint'', PStr ''https://eol.example/foo'') # foo_manual)
        (PStr ''org/repo'') (Date 2024 1 1) calm_world"
    using step_eligible [OF _ i r] due
    by (simp add: foo_manual_def get_or_def del: One_nat_def)
  then show ?thesis
    by (simp add: publish_def getitem_def foo_manual_def get_or_def title_of_eq body_of_eq iso_2024
          issue_exists_def create_issue_def emit_def calm_world_def del: One_nat_def)
qed

text \<open>
  What the loop does in general: the body of every issue it creates is the template
  filled with product, version, resolved date and the \<open>api_endpoint\<close> field when the
  entry has one, \<open>manual entry\<close> when it has none; an entry without the field that gets
  an issue is a manual entry.
\<close>

lemma created_issue_body:
  assumes "GhIssueCreate r t b \<in> set (drop (length (trace w)) (trace (snd (open_issues_step e w))))"
  shows "\<exists>p v eol. map_of e ''product'' = Some p \<and> map_of e ''version'' = Some v \<and>
      fst (resolve_eol e w) = Inr eol \<and>
      b = [CHR 0xE2, CHR 0x9A, CHR 0xA0, CHR 0xEF, CHR 0xB8, CHR 0x8F] @ '' **End'' @
          [CHR 0xE2, CHR 0x80, CHR 0x91] @ ''of'' @ [CHR 0xE2, CHR 0x80, CHR 0x91] @
          ''life approaching**'' @ [CHR 10, CHR 10] @ ''* **Product:** '' @ py_str p @ '' '' @
          py_str v @ [CHR 10] @ ''* **EOL date:** '' @ isoformat eol @ [CHR 10, CHR 10] @
          ''_Source: '' @
          (case map_of e ''api_endpoint'' of None \<Rightarrow> ''manual entry'' | Some ep \<Rightarrow> py_str ep) @
          ''_'' @ [CHR 10] \<and>
      (map_of e ''api_endpoint'' = None \<longrightarrow> map_of e ''source'' = Some (PStr ''manual''))"
proof -
  from step_create [OF assms] obtain eol where eol: "fst (resolve_eol e w) = Inr eol"
    and mem: "GhIssueCreate r t b \<in> set (drop (length (trace (snd (resolve_eol e w))))
       (trace (snd (publish e (get_or e ''issue_repo'' PNone) eol (snd (resolve_eol e w))))))"
    by blast
  from publish_create [OF mem] obtain p v where
    pv: "map_of e ''product'' = Some p" "map_of e ''version'' = Some v"
    and body: "body_of (py_str p) (py_str v) (isoformat eol)
        (py_str (get_or e ''api_endpoint'' (PStr ''manual entry''))) = Inr b"
    by blast
  have ref: "py_str (get_or e ''api_endpoint'' (PStr ''manual entry'')) =
      (case map_of e ''api_endpoint'' of None \<Rightarrow> ''manual entry'' | Some ep \<Rightarrow> py_str ep)"
    by (simp add: get_or_def split: option.splits)
  have src: "map_of e ''source'' = Some (PStr ''manual'')" if "map_of e ''api_endpoint'' = None"
  proof (rule ccontr)
    assume "map_of e ''source'' \<noteq> Some (PStr ''manual'')"
    with that have "fst (resolve_eol e w) = Inl (KeyError ''api_endpoint'')"
      by (simp add: resolve_eol_api)
    with eol show False by simp
  qed
  from body have "b = [CHR 0xE2, CHR 0x9A, CHR 0xA0, CHR 0xEF, CHR 0xB8, CHR 0x8F] @ '' **End'' @
          [CHR 0xE2, CHR 0x80, CHR 0x91] @ ''of'' @ [CHR 0xE2, CHR 0x80, CHR 0x91] @
          ''life approaching**'' @ [CHR 10, CHR 10] @ ''* **Product:** '' @ py_str p @ '' '' @
          py_str v @ [CHR 10] @ ''* **EOL date:** '' @ isoformat eol @ [CHR 10, CHR 10] @
          ''_Source: '' @
          (case map_of e ''api_endpoint'' of None \<Rightarrow> ''manual entry'' | Some ep \<Rightarrow> py_str ep) @
          ''_'' @ [CHR 10]"
    unfolding ref body_of_eq by simp
  with pv eol src show ?thesis
    by - (rule exI [of _ p], rule exI [of _ v], rule exI [of _ eol], simp)
qed

subsection \<open>Calendar-only entries\<close>

text \<open>
  C8. An entry without an \<open>issue_repo\<close> field is skipped by the issue loop before anything
  else happens: the world is unchanged (no resolution, no request, no probe), however
  close or long past its EOL date is, and the loop continues with the next entry.
\<close>

theorem no_repo_never_notifies:
  "map_of e ''issue_repo'' = None \<Longrightarrow>
     open_issues_step e w = (Inr (), w) \<and> open_issues_loop (e # es) w = open_issues_loop es w"
  by (simp add: step_no_repo)

theorem no_repo_never_notifies_witness:
  "map_of [(''product'', PStr ''Foo''), (''version'', PStr ''1.0''), (''source'', PStr ''manual''),
      (''eol_date'', PStr ''2000-01-01'')] ''issue_repo'' = None \<and>
   open_issues_step [(''product'', PStr ''Foo''), (''version'', PStr ''1.0''),
      (''source'', PStr ''manual''), (''eol_date'', PStr ''2000-01-01'')] calm_world =
     (Inr (), calm_world)"
  using no_repo_never_notifies [of "[(''product'', PStr ''Foo''), (''version'', PStr ''1.0''),
      (''source'', PStr ''manual''), (''eol_date'', PStr ''2000-01-01'')]" calm_world]
  by simp

subsection \<open>The credential\<close>

text \<open>
  C9. Without \<open>GH_TOKEN\<close> the issue flow ends at once with exit status 1 and a diagnostic
  on standard error, whatever the catalog holds: no entry is processed. The calendar
  flow never reads the variable: run with any value of it, or none, it gives the same
  result and the same effects.
\<close>

theorem missing_token_fatal_for_issues_only:
  "(GH_TOKEN w = None \<longrightarrow>
      open_issues es w =
        (Inl (SystemExit 1), emit (Stderr ''ERROR: GH_TOKEN env var not set'') w)) \<and>
   calendar es dest (w\<lparr>GH_TOKEN := t\<rparr>) =
     (fst (calendar es dest w), (snd (calendar es dest w))\<lparr>GH_TOKEN := t\<rparr>)"
  by (simp add: open_issues_def calendar_token)

theorem missing_token_fatal_for_issues_only_witness:
  "GH_TOKEN (calm_world\<lparr>GH_TOKEN := None\<rparr>) = None \<and>
   open_issues [foo_manual] (calm_world\<lparr>GH_TOKEN := None\<rparr>) =
     (Inl (SystemExit 1),
      emit (Stderr ''ERROR: GH_TOKEN env var not set'') (calm_world\<lparr>GH_TOKEN := None\<rparr>)) \<and>
   fst (calendar [foo_manual] ''eol.ics'' (calm_world\<lparr>GH_TOKEN := None\<rparr>)) = Inr ()"
proof -
  have none: "GH_TOKEN (calm_world\<lparr>GH_TOKEN := None\<rparr>) = None" by simp
  from missing_token_fatal_for_issues_only
    [where w = "calm_world\<lparr>GH_TOKEN := None\<rparr>" and es = "[foo_manual]", THEN conjunct1] none
  have a: "open_issues [foo_manual] (calm_world\<lparr>GH_TOKEN := None\<rparr>) =
     (Inl (SystemExit 1),
      emit (Stderr ''ERROR: GH_TOKEN env var not set'') (calm_world\<lparr>GH_TOKEN := None\<rparr>))"
    by blast
  from missing_token_fatal_for_issues_only
    [where w = calm_world and es = "[foo_manual]" and dest = "''eol.ics''" and t = None,
     THEN conjunct2]
  have "fst (calendar [foo_manual] ''eol.ics'' (calm_world\<lparr>GH_TOKEN := None\<rparr>)) =
      fst (calendar [foo_manual] ''eol.ics'' calm_world)"
    by simp
  with a none show ?thesis by (simp only: calendar_foo simp_thms)
qed

subsection \<open>Choosing the path\<close>

text \<open>
  C10. Only the exact string \<open>manual\<close> in the \<open>source\<close> field selects the manual override,
  which returns the parsed \<open>eol_date\<close> without any request. An absent field or any other
  value (\<open>Manual\<close>, say) takes the API path: it needs \<open>api_endpoint\<close> (\<open>KeyError\<close> without
  it) and calls it once.
\<close>

theorem source_selects_path:
  "(map_of e ''source'' \<noteq> Some (PStr ''manual'') \<longrightarrow>
      (map_of e ''api_endpoint'' = None \<longrightarrow>
         resolve_eol e w = (Inl (KeyError ''api_endpoint''), w)) \<and>
      (\<forall>ep. map_of e ''api_endpoint'' = Some ep \<longrightarrow>
         snd (resolve_eol e w) = emit (HttpGet (py_str ep)) w \<and>
         fst (resolve_eol e w) =
           (case http w (trace w) (py_str ep) of
              None \<Rightarrow> Inl RequestException
            | Some rv \<Rightarrow> eol_from_response e (py_str ep) rv))) \<and>
   (map_of e ''source'' = Some (PStr ''manual'') \<longrightarrow>
      resolve_eol e w =
        ((case map_of e ''eol_date'' of
            None \<Rightarrow> Inl (KeyError ''eol_date'')
          | Some (PStr s) \<Rightarrow> iso s
          | Some _ \<Rightarrow> Inl TypeError), w))"
  by (simp add: resolve_eol_manual resolve_eol_api)

theorem source_selects_path_witness:
  "resolve_eol [(''product'', PStr ''Foo''), (''version'', PStr ''1.0''), (''source'', PStr ''Manual''),
      (''eol_date'', PStr ''2024-01-01'')] calm_world =
     (Inl (KeyError ''api_endpoint''), calm_world) \<and>
   snd (resolve_eol bar_api calm_world) = emit (HttpGet ''https://eol.example/bar'') calm_world \<and>
   resolve_eol foo_manual calm_world = (Inr (Date 2024 1 1), calm_world)"
proof -
  have parsed: "iso ''2024-01-01'' = Inr (Date 2024 1 1)"
    by (simp add: model_defs)
  have foo_eol_date: "map_of foo_manual ''eol_date'' = Some (PStr ''2024-01-01'')"
    by (simp add: foo_manual_def)
  from source_selects_path [of "[(''product'', PStr ''Foo''), (''version'', PStr ''1.0''),
      (''source'', PStr ''Manual''), (''eol_date'', PStr ''2024-01-01'')]" calm_world]
    source_selects_path [of bar_api calm_world]
    source_selects_path [of foo_manual calm_world]
  show ?thesis
    by (simp add: bar_fields foo_fields foo_eol_date parsed del: One_nat_def)
qed

end
